theory Spec2Isabelle
  imports Complex_Main
begin

section \<open>Lip Decoder: the Streamlit script \<open>app.py\<close>\<close>

text \<open>
  The script keeps five values in \<open>st.session_state\<close>, records a segment of audio and
  video (\<open>record_av_segment\<close>), and on page 4 runs the analysis handler over three
  functions imported from \<open>utils\<close>. Calls into libraries (Streamlit, OpenCV, sounddevice,
  MoviePy, \<open>utils\<close>) are the script's only effects: the model lists them, in the order the
  script makes them, as a trace of events, and takes what each call does (returns or
  raises) from an explicit description of the outside world.
\<close>

subsection \<open>Exceptions\<close>

text \<open>
  Python separates the exceptions derived from \<open>Exception\<close>, which \<open>except Exception\<close>
  catches, from the other descendants of \<open>BaseException\<close> (\<open>KeyboardInterrupt\<close>,
  \<open>SystemExit\<close>, \<open>GeneratorExit\<close>), which only a bare \<open>except:\<close> catches. The string
  is \<open>str(e)\<close>.
\<close>

datatype exn = Exception string | BaseException string

subsection \<open>Session state (lines 20-25) and \<open>reset_app\<close> (lines 72-75)\<close>

record session_state =
  page :: int
  input_method :: "string option"
  target_lang :: string
  target_lang_code :: string
  video_path :: "string option"

definition initial_session :: session_state where
  "initial_session =
     \<lparr>page = 1, input_method = None, target_lang = ''English'',
      target_lang_code = ''en'', video_path = None\<rparr>"

definition reset_app :: "session_state \<Rightarrow> session_state" where
  "reset_app s = s\<lparr>page := 1, video_path := None, input_method := None\<rparr>"

subsection \<open>Events\<close>

text \<open>
  One event per library call, recorded when the call is made. \<open>CapRead\<close> and \<open>OutWrite\<close>
  carry the elapsed time \<open>time.time() - start_time\<close> measured by the loop test that let the
  iteration run (the script does not store it; it is kept here to speak about the span of
  the capture). A frame is an opaque value.
\<close>

type_synonym frame = nat

datatype event =
    SdRec int                       \<comment> \<open>\<open>sd.rec(n, samplerate=44100, channels=1)\<close>\<close>
  | SetupVideo                      \<comment> \<open>lines 98-111: camera, size, temp files, writer, placeholder\<close>
  | CapRead rat                     \<comment> \<open>\<open>cap.read()\<close>\<close>
  | OutWrite rat frame              \<comment> \<open>\<open>out.write(frame)\<close>\<close>
  | Preview frame                   \<comment> \<open>\<open>st_ph.image(cv2.cvtColor(frame, ...), ...)\<close>\<close>
  | CapRelease                      \<comment> \<open>\<open>cap.release()\<close>\<close>
  | OutRelease                      \<comment> \<open>\<open>out.release()\<close>\<close>
  | SdWait                          \<comment> \<open>\<open>sd.wait()\<close>\<close>
  | WavWrite string                 \<comment> \<open>\<open>write(temp_audio.name, fs, myrecording)\<close>\<close>
  | PlaceholderEmpty                \<comment> \<open>\<open>st_ph.empty()\<close>\<close>
  | StInfo string
  | StError string
  | StWarning string
  | StSuccess string
  | StVideo string
  | Spinner string
  | VideoFileClip string
  | AudioFileClip string
  | SetAudio                        \<comment> \<open>\<open>video_clip.set_audio(audio_clip)\<close>\<close>
  | WriteVideofile string
  | CloseVideoClip
  | CloseAudioClip
  | OsRemove string
  | Progress nat string             \<comment> \<open>\<open>st.progress(p, text=...)\<close> and \<open>bar.progress(p, text=...)\<close>\<close>
  | VisualFeatureExtraction string
  | DeepLipDecode string
  | TranslateContent string string
  | BarEmpty                        \<comment> \<open>\<open>bar.empty()\<close>\<close>
  | ResultBox string string string  \<comment> \<open>the result markdown: target language, translated, raw text\<close>

text \<open>What a trace shows of the analysis: progress reports, calls into \<open>utils\<close>, results.\<close>

fun progress_of :: "event \<Rightarrow> (nat \<times> string) option" where
  "progress_of (Progress p label) = Some (p, label)"
| "progress_of _ = None"

fun is_collaborator_call :: "event \<Rightarrow> bool" where
  "is_collaborator_call (VisualFeatureExtraction _) = True"
| "is_collaborator_call (DeepLipDecode _) = True"
| "is_collaborator_call (TranslateContent _ _) = True"
| "is_collaborator_call _ = False"

fun result_of :: "event \<Rightarrow> (string \<times> string \<times> string) option" where
  "result_of (ResultBox lang translated raw_text) = Some (lang, translated, raw_text)"
| "result_of _ = None"

subsection \<open>The ANALYZE LIP MOVEMENTS handler (lines 219-254)\<close>

text \<open>
  The three functions of \<open>utils\<close> are parameters; each returns a value or raises. The
  handler has no \<open>try\<close>: an exception ends it with the trace so far. \<open>time.sleep\<close> is left
  out. The result is the trace and the exception that ended the handler, if any. The test
  \<open>not st.session_state.video_path\<close> holds for \<open>None\<close> and for the empty string.
\<close>

definition analyze ::
  "(string \<Rightarrow> exn + 'v) \<Rightarrow> (string \<Rightarrow> exn + string) \<Rightarrow> (string \<Rightarrow> string \<Rightarrow> exn + string)
     \<Rightarrow> session_state \<Rightarrow> event list \<times> exn option" where
  "analyze visual_feature_extraction deep_lip_decode translate_content s =
    (case video_path s of
       None \<Rightarrow> ([StWarning ''Please provide a video first.''], None)
     | Some path \<Rightarrow>
        if path = [] then ([StWarning ''Please provide a video first.''], None)
        else
           (let tr0 = [Progress 0 ''Initializing 3D-CNN Pipeline...'',
                       VisualFeatureExtraction path] in
            case visual_feature_extraction path of
              Inl e \<Rightarrow> (tr0, Some e)
            | Inr _ \<Rightarrow>
               (let tr1 = tr0 @ [Progress 40 ''Extracting Lip Landmarks & Geometry...'',
                                 Progress 70 ''Mapping Spatiotemporal Features...'',
                                 DeepLipDecode path] in
                case deep_lip_decode path of
                  Inl e \<Rightarrow> (tr1, Some e)
                | Inr raw_text \<Rightarrow>
                   (let tr2 = tr1 @ [Progress 90 (''Translating to '' @ target_lang s @ ''...''),
                                     TranslateContent raw_text (target_lang_code s)] in
                    case translate_content raw_text (target_lang_code s) of
                      Inl e \<Rightarrow> (tr2, Some e)
                    | Inr translated \<Rightarrow>
                       (tr2 @ [Progress 100 ''Complete!'', BarEmpty,
                               ResultBox (target_lang s) translated raw_text], None)))))"

subsection \<open>Sequences of calls\<close>

text \<open>
  A block of statements, each a library call that returns or raises: the calls are made
  in order up to the first that raises. The result is the calls made and the exception
  that ended the block, if any.
\<close>

fun run_steps :: "(event \<times> exn option) list \<Rightarrow> event list \<times> exn option" where
  "run_steps [] = ([], None)"
| "run_steps ((ev, Some e) # rest) = ([ev], Some e)"
| "run_steps ((ev, None) # rest) = (ev # fst (run_steps rest), snd (run_steps rest))"

subsection \<open>The outside world of \<open>record_av_segment\<close>\<close>

text \<open>
  One \<open>tick\<close> per evaluation of the loop test of line 115: what \<open>time.time()\<close> returns
  there, and what the three calls of the loop body would do in that iteration.
  \<open>cap.read()\<close> raises or returns \<open>(ret, frame)\<close>; \<open>None\<close> stands for \<open>ret = False\<close>.
\<close>

record tick =
  clock :: rat
  cap_read :: "exn + frame option"
  out_write :: "exn option"
  preview :: "exn option"

text \<open>
  The devices and files of lines 90-128. \<open>ticks\<close> is a finite script of the loop's
  iterations. \<open>None\<close> in an \<open>exn option\<close> field means that the call returns.
\<close>

record devices =
  sd_rec :: "exn option"
  setup_video :: "exn option"
  temp_vid :: string
  temp_audio :: string
  final_output :: string
  start_time :: rat
  ticks :: "tick list"
  cap_release :: "exn option"
  out_release :: "exn option"
  sd_wait :: "exn option"
  wav_write :: "exn option"

text \<open>What the MoviePy and \<open>os.remove\<close> calls of lines 131-146 do.\<close>

record moviepy =
  open_video :: "exn option"
  open_audio :: "exn option"
  set_audio :: "exn option"
  write_videofile :: "exn option"
  close_video :: "exn option"
  close_audio :: "exn option"
  remove_vid :: "exn option"
  remove_audio :: "exn option"

subsection \<open>\<open>record_av_segment\<close>: capture (lines 90-128)\<close>

text \<open>
  \<open>duration\<close> is a Python number: an \<open>int\<close>, or a \<open>float\<close> taken as the rational it
  denotes. \<open>int(x)\<close> truncates towards zero.
\<close>

definition fs :: rat where
  "fs = 44100"

definition py_int :: "rat \<Rightarrow> int" where
  "py_int x = (if 0 \<le> x then \<lfloor>x\<rfloor> else \<lceil>x\<rceil>)"

text \<open>
  The loop of lines 115-119. A script that ends before the loop does says nothing about
  what the program does next: the result is \<open>None\<close>.
\<close>

fun recording_loop :: "rat \<Rightarrow> rat \<Rightarrow> tick list \<Rightarrow> (event list \<times> exn option) option" where
  "recording_loop start duration [] = None"
| "recording_loop start duration (t # ts) =
    (let elapsed = clock t - start in
     if elapsed < duration then
       (case cap_read t of
          Inl e \<Rightarrow> Some ([CapRead elapsed], Some e)
        | Inr None \<Rightarrow> Some ([CapRead elapsed], None)
        | Inr (Some frame) \<Rightarrow>
           (case out_write t of
              Some e \<Rightarrow> Some ([CapRead elapsed, OutWrite elapsed frame], Some e)
            | None \<Rightarrow>
               (case preview t of
                  Some e \<Rightarrow>
                    Some ([CapRead elapsed, OutWrite elapsed frame, Preview frame], Some e)
                | None \<Rightarrow>
                   (case recording_loop start duration ts of
                      None \<Rightarrow> None
                    | Some (tr, r) \<Rightarrow>
                        Some (CapRead elapsed # OutWrite elapsed frame # Preview frame # tr,
                              r)))))
     else Some ([], None))"

definition stop_and_save :: "devices \<Rightarrow> (event \<times> exn option) list" where
  "stop_and_save w =
     [(CapRelease, cap_release w),
      (OutRelease, out_release w),
      (SdWait, sd_wait w),
      (WavWrite (temp_audio w), wav_write w),
      (PlaceholderEmpty, None),
      (StInfo ''Processing Media...'', None)]"

definition capture_phase :: "rat \<Rightarrow> devices \<Rightarrow> (event list \<times> exn option) option" where
  "capture_phase duration w =
    (case run_steps [(SdRec (py_int (duration * fs)), sd_rec w), (SetupVideo, setup_video w)] of
       (tr1, Some e) \<Rightarrow> Some (tr1, Some e)
     | (tr1, None) \<Rightarrow>
        (case recording_loop (start_time w) duration (ticks w) of
           None \<Rightarrow> None
         | Some (tr2, Some e) \<Rightarrow> Some (tr1 @ tr2, Some e)
         | Some (tr2, None) \<Rightarrow>
            (case run_steps (stop_and_save w) of
               (tr3, r) \<Rightarrow> Some (tr1 @ tr2 @ tr3, r))))"

text \<open>What a trace shows of the capture.\<close>

fun written_of :: "event \<Rightarrow> (rat \<times> frame) option" where
  "written_of (OutWrite elapsed frame) = Some (elapsed, frame)"
| "written_of _ = None"

fun requested_of :: "event \<Rightarrow> int option" where
  "requested_of (SdRec n) = Some n"
| "requested_of _ = None"

fun read_time_of :: "event \<Rightarrow> rat option" where
  "read_time_of (CapRead elapsed) = Some elapsed"
| "read_time_of _ = None"

fun is_error_report :: "event \<Rightarrow> bool" where
  "is_error_report (StError _) = True"
| "is_error_report (StWarning _) = True"
| "is_error_report _ = False"

definition video_buffer :: "event list \<Rightarrow> (rat \<times> frame) list" where
  "video_buffer tr = List.map_filter written_of tr"

definition audio_samples :: "event list \<Rightarrow> int list" where
  "audio_samples tr = List.map_filter requested_of tr"

definition read_times :: "event list \<Rightarrow> rat list" where
  "read_times tr = List.map_filter read_time_of tr"


definition delivered :: "tick \<Rightarrow> frame option" where
  "delivered t =
     (case cap_read t of
        Inl _ \<Rightarrow> None
      | Inr None \<Rightarrow> None
      | Inr (Some frame) \<Rightarrow> if out_write t = None \<and> preview t = None then Some frame else None)"

definition calls_return :: "devices \<Rightarrow> bool" where
  "calls_return w =
     (sd_rec w = None \<and> setup_video w = None \<and>
      cap_release w = None \<and> out_release w = None \<and> sd_wait w = None \<and> wav_write w = None)"


subsection \<open>\<open>record_av_segment\<close>: merge (lines 130-151)\<close>

definition merge_body :: "devices \<Rightarrow> moviepy \<Rightarrow> (event \<times> exn option) list" where
  "merge_body w m =
     [(VideoFileClip (temp_vid w), open_video m),
      (AudioFileClip (temp_audio w), open_audio m),
      (SetAudio, set_audio m),
      (WriteVideofile (final_output w), write_videofile m),
      (CloseVideoClip, close_video m),
      (CloseAudioClip, close_audio m)]"

definition cleanup :: "devices \<Rightarrow> moviepy \<Rightarrow> (event \<times> exn option) list" where
  "cleanup w m =
     [(OsRemove (temp_vid w), remove_vid m),
      (OsRemove (temp_audio w), remove_audio m)]"

text \<open>
  The outer handler is \<open>except Exception as e\<close>; the inner one, around the two
  \<open>os.remove\<close> calls, is a bare \<open>except: pass\<close>.
\<close>

definition merge_step :: "devices \<Rightarrow> moviepy \<Rightarrow> event list \<times> (exn + string)" where
  "merge_step w m =
    (case run_steps (merge_body w m) of
       (tr, None) \<Rightarrow> (tr @ fst (run_steps (cleanup w m)), Inr (final_output w))
     | (tr, Some (Exception msg)) \<Rightarrow>
         (tr @ [StError (''Merge Error: '' @ msg)], Inr (temp_vid w))
     | (tr, Some (BaseException msg)) \<Rightarrow> (tr, Inl (BaseException msg)))"

definition record_av_segment ::
  "rat \<Rightarrow> devices \<Rightarrow> moviepy \<Rightarrow> (event list \<times> (exn + string)) option" where
  "record_av_segment duration w m =
    (case capture_phase duration w of
       None \<Rightarrow> None
     | Some (tr, Some e) \<Rightarrow> Some (tr, Inl e)
     | Some (tr, None) \<Rightarrow> (case merge_step w m of (tr', r) \<Rightarrow> Some (tr @ tr', r)))"

subsection \<open>Page 4, live input (lines 207-216)\<close>

definition show_video :: "session_state \<Rightarrow> event list" where
  "show_video s =
     (case video_path s of
        None \<Rightarrow> []
      | Some p \<Rightarrow> if p = [] then [] else [StVideo p])"

definition live_input ::
  "bool \<Rightarrow> devices \<Rightarrow> moviepy \<Rightarrow> session_state
     \<Rightarrow> (event list \<times> (exn + session_state)) option" where
  "live_input start_recording w m s =
    (if start_recording then
       (case record_av_segment 60 w m of
          None \<Rightarrow> None
        | Some (tr, Inl e) \<Rightarrow>
            Some (StInfo ''Records for 2 MINUTES.'' # Spinner ''Recording...'' # tr, Inl e)
        | Some (tr, Inr file_path) \<Rightarrow>
            (let s' = s\<lparr>video_path := Some file_path\<rparr> in
             Some (StInfo ''Records for 2 MINUTES.'' # Spinner ''Recording...'' # tr
                     @ StSuccess ''Recording Saved!'' # show_video s',
                   Inr s')))
     else Some (StInfo ''Records for 2 MINUTES.'' # show_video s, Inr s))"

subsection \<open>Example worlds\<close>

text \<open>Working devices: two frames, then the clock has reached the 60 seconds.\<close>

definition w_full :: devices where
  "w_full =
     \<lparr>sd_rec = None, setup_video = None,
      temp_vid = ''/tmp/v.mp4'', temp_audio = ''/tmp/a.wav'', final_output = ''/tmp/out.mp4'',
      start_time = 100,
      ticks =
        [\<lparr>clock = 100, cap_read = Inr (Some 7), out_write = None, preview = None\<rparr>,
         \<lparr>clock = 130, cap_read = Inr (Some 8), out_write = None, preview = None\<rparr>,
         \<lparr>clock = 160, cap_read = Inr (Some 9), out_write = None, preview = None\<rparr>],
      cap_release = None, out_release = None, sd_wait = None, wav_write = None\<rparr>"

text \<open>The camera delivers one frame; the read one second later returns \<open>ret = False\<close>.\<close>

definition w_read_fails :: devices where
  "w_read_fails =
     w_full\<lparr>ticks :=
        [\<lparr>clock = 101, cap_read = Inr (Some 7), out_write = None, preview = None\<rparr>,
         \<lparr>clock = 102, cap_read = Inr None, out_write = None, preview = None\<rparr>,
         \<lparr>clock = 103, cap_read = Inr (Some 9), out_write = None, preview = None\<rparr>]\<rparr>"

text \<open>\<open>out.write\<close> raises \<open>cv2.error\<close> on the first frame.\<close>

definition w_write_raises :: devices where
  "w_write_raises =
     w_full\<lparr>ticks :=
        [\<lparr>clock = 101, cap_read = Inr (Some 7), out_write = Some (Exception ''cv2.error''),
          preview = None\<rparr>,
         \<lparr>clock = 160, cap_read = Inr (Some 9), out_write = None, preview = None\<rparr>]\<rparr>"

definition m_ok :: moviepy where
  "m_ok =
     \<lparr>open_video = None, open_audio = None, set_audio = None, write_videofile = None,
      close_video = None, close_audio = None, remove_vid = None, remove_audio = None\<rparr>"

text \<open>The audio file cannot be read.\<close>

definition m_corrupt_audio :: moviepy where
  "m_corrupt_audio = m_ok\<lparr>open_audio := Some (Exception ''corrupt audio file'')\<rparr>"

text \<open>The encoder is interrupted: \<open>KeyboardInterrupt\<close> is not an \<open>Exception\<close>.\<close>

definition m_interrupted :: moviepy where
  "m_interrupted = m_ok\<lparr>write_videofile := Some (BaseException ''KeyboardInterrupt'')\<rparr>"

text \<open>A session on page 4 with an uploaded clip, and three functions that return.\<close>

definition s_clip :: session_state where
  "s_clip = initial_session\<lparr>page := 4, input_method := Some ''upload'',
                            video_path := Some ''clip.mp4''\<rparr>"

definition landmarks :: "string \<Rightarrow> exn + nat" where
  "landmarks path = Inr (length path)"

definition other_landmarks :: "string \<Rightarrow> exn + nat list" where
  "other_landmarks path = Inr [1, 2, 3]"

definition whisper :: "string \<Rightarrow> exn + string" where
  "whisper path = Inr ''hello''"

definition translator :: "string \<Rightarrow> string \<Rightarrow> exn + string" where
  "translator txt code = Inr (code @ '':'' @ txt)"

section \<open>Properties\<close>

subsection \<open>Session state\<close>

text \<open>
  Claim C10. \<open>reset_app\<close>, the \<open>on_click\<close> callback of the Start Over button, sets the
  page to 1 and clears the video path and the input method; the target language name and
  code are the ones the session had before.
\<close>

theorem reset_app_keeps_language:
  "page (reset_app s) = 1 \<and> video_path (reset_app s) = None \<and> input_method (reset_app s) = None
     \<and> target_lang (reset_app s) = target_lang s
     \<and> target_lang_code (reset_app s) = target_lang_code s"
  by (simp add: reset_app_def)

subsection \<open>The analysis handler\<close>

text \<open>
  Claim C5. When the video path is absent or empty, the handler shows the warning and
  nothing else: it ends without an exception, whatever the three functions of \<open>utils\<close>
  are, and the trace holds no call of any of them.
\<close>

theorem analyze_without_video:
  assumes "video_path s = None \<or> video_path s = Some []"
  shows "analyze visual decode translate s = ([StWarning ''Please provide a video first.''], None)
         \<and> filter is_collaborator_call (fst (analyze visual decode translate s)) = []"
  using assms by (auto simp: analyze_def)

theorem analyze_without_video_witness:
  "analyze landmarks whisper translator initial_session
     = ([StWarning ''Please provide a video first.''], None)
   \<and> filter is_collaborator_call (fst (analyze landmarks whisper translator initial_session)) = []"
  using analyze_without_video [of initial_session landmarks whisper translator]
  by (simp add: initial_session_def)

text \<open>
  Claim C1. For a non-empty video path, and functions of \<open>utils\<close> that return on the
  values the handler passes them, the progress reports are 0, 40, 70, 90, 100 with the
  labels of the five stages, in this order and once each; the three functions are called
  once each, in the order visual features, decoder, translation, the translation on the
  decoder's text and the selected language code; the result box shows the translation's
  value next to the decoder's; and the handler ends without an exception.
\<close>

theorem analyze_runs_pipeline:
  assumes "video_path s = Some path" and "path \<noteq> []"
    and "visual path = Inr features"
    and "decode path = Inr raw_text"
    and "translate raw_text (target_lang_code s) = Inr translated"
  shows "List.map_filter progress_of (fst (analyze visual decode translate s)) =
           [(0, ''Initializing 3D-CNN Pipeline...''),
            (40, ''Extracting Lip Landmarks & Geometry...''),
            (70, ''Mapping Spatiotemporal Features...''),
            (90, ''Translating to '' @ target_lang s @ ''...''),
            (100, ''Complete!'')]
       \<and> filter is_collaborator_call (fst (analyze visual decode translate s)) =
           [VisualFeatureExtraction path, DeepLipDecode path,
            TranslateContent raw_text (target_lang_code s)]
       \<and> List.map_filter result_of (fst (analyze visual decode translate s)) =
           [(target_lang s, translated, raw_text)]
       \<and> snd (analyze visual decode translate s) = None"
  using assms by (simp add: analyze_def)

theorem analyze_runs_pipeline_witness:
  "List.map_filter progress_of (fst (analyze landmarks whisper translator s_clip)) =
           [(0, ''Initializing 3D-CNN Pipeline...''),
            (40, ''Extracting Lip Landmarks & Geometry...''),
            (70, ''Mapping Spatiotemporal Features...''),
            (90, ''Translating to English...''),
            (100, ''Complete!'')]
       \<and> filter is_collaborator_call (fst (analyze landmarks whisper translator s_clip)) =
           [VisualFeatureExtraction ''clip.mp4'', DeepLipDecode ''clip.mp4'',
            TranslateContent ''hello'' ''en'']
       \<and> List.map_filter result_of (fst (analyze landmarks whisper translator s_clip)) =
           [(''English'', ''en:hello'', ''hello'')]
       \<and> snd (analyze landmarks whisper translator s_clip) = None"
  using analyze_runs_pipeline
    [of s_clip "''clip.mp4''" landmarks 8 whisper "''hello''" translator "''en:hello''"]
  by (simp add: s_clip_def initial_session_def landmarks_def whisper_def translator_def)

text \<open>
  Claim C6. Two runs on the same session, decoder and translation, whose visual-feature
  functions both return on the video path, whatever they return, have the same trace and
  the same end; so the result box, which is part of the trace, shows the same raw and
  translated text.
\<close>

theorem visual_result_is_discarded:
  assumes "video_path s = Some path"
    and "visual1 path = Inr a" and "visual2 path = Inr b"
  shows "analyze visual1 decode translate s = analyze visual2 decode translate s"
  using assms by (simp add: analyze_def)

theorem visual_result_is_discarded_witness:
  "analyze landmarks whisper translator s_clip = analyze other_landmarks whisper translator s_clip"
  using visual_result_is_discarded
    [of s_clip "''clip.mp4''" landmarks 8 other_landmarks "[1, 2, 3]" whisper translator]
  by (simp add: s_clip_def landmarks_def other_landmarks_def)

text \<open>
  Claim C7. The handler reports the decoder's and the translation's labels before it
  calls them, but calls \<open>visual_feature_extraction\<close> first and reports the label of that
  stage, with 40 percent, only after the call has returned: on the uploaded clip the trace
  starts with the report of 0 percent, then the call, then the report of 40 percent.
\<close>

theorem visual_work_precedes_its_label:
  "take 3 (fst (analyze landmarks whisper translator s_clip)) =
     [Progress 0 ''Initializing 3D-CNN Pipeline...'',
      VisualFeatureExtraction ''clip.mp4'',
      Progress 40 ''Extracting Lip Landmarks & Geometry...'']"
  by (simp add: analyze_def s_clip_def initial_session_def landmarks_def whisper_def
      translator_def)

subsection \<open>The recording loop and sequences of calls\<close>

lemma map_filter_append:
  "List.map_filter f (xs @ ys) = List.map_filter f xs @ List.map_filter f ys"
  by (simp add: List.map_filter_def)




lemma recording_loop_read_times:
  "recording_loop start duration ts = Some (tr, r)
     \<Longrightarrow> list_all (\<lambda>t. t < duration) (read_times tr)"
  by (induction ts arbitrary: tr)
    (auto simp: Let_def read_times_def split: sum.splits option.splits if_splits)

lemma recording_loop_requests_nothing:
  "recording_loop start duration ts = Some (tr, r) \<Longrightarrow> audio_samples tr = []"
  by (induction ts arbitrary: tr)
    (auto simp: Let_def audio_samples_def split: sum.splits option.splits if_splits)

lemma recording_loop_reports_nothing:
  "recording_loop start duration ts = Some (tr, r) \<Longrightarrow> filter is_error_report tr = []"
  by (induction ts arbitrary: tr)
    (auto simp: Let_def split: sum.splits option.splits if_splits)

lemma run_steps_returns:
  "snd (run_steps steps) = None \<Longrightarrow> fst (run_steps steps) = map fst steps"
  by (induction steps rule: run_steps.induct) auto

lemma run_steps_calls:
  "list_all P (map fst steps) \<Longrightarrow> list_all P (fst (run_steps steps))"
  by (induction steps rule: run_steps.induct) auto

lemma stop_and_save_returns:
  assumes "run_steps (stop_and_save w) = (tr, None)"
  shows "tr = [CapRelease, OutRelease, SdWait, WavWrite (temp_audio w), PlaceholderEmpty,
               StInfo ''Processing Media...'']"
  using run_steps_returns [of "stop_and_save w"] assms by (simp add: stop_and_save_def)

lemma capture_phase_returns:
  assumes "capture_phase duration w = Some (tr, None)"
  obtains tr2 where "recording_loop (start_time w) duration (ticks w) = Some (tr2, None)"
    and "tr = [SdRec (py_int (duration * fs)), SetupVideo] @ tr2 @
              [CapRelease, OutRelease, SdWait, WavWrite (temp_audio w), PlaceholderEmpty,
               StInfo ''Processing Media...'']"
proof -
  let ?first = "[(SdRec (py_int (duration * fs)), sd_rec w), (SetupVideo, setup_video w)]"
  from assms obtain tr1 tr2 tr3 where
    a: "run_steps ?first = (tr1, None)"
    and b: "recording_loop (start_time w) duration (ticks w) = Some (tr2, None)"
    and c: "run_steps (stop_and_save w) = (tr3, None)"
    and d: "tr = tr1 @ tr2 @ tr3"
    by (auto simp: capture_phase_def split: prod.splits option.splits)
  from a have "tr1 = [SdRec (py_int (duration * fs)), SetupVideo]"
    using run_steps_returns [of ?first] by simp
  with that b c d stop_and_save_returns show thesis by blast
qed

lemma capture_phase_ok:
  assumes "calls_return w"
    and "recording_loop (start_time w) duration (ticks w) = Some (tr2, None)"
  shows "capture_phase duration w =
           Some ([SdRec (py_int (duration * fs)), SetupVideo] @ tr2 @
                 [CapRelease, OutRelease, SdWait, WavWrite (temp_audio w), PlaceholderEmpty,
                  StInfo ''Processing Media...''], None)"
  using assms by (simp add: capture_phase_def calls_return_def stop_and_save_def)

lemma map_filter_none: "list_all (\<lambda>x. f x = None) xs \<Longrightarrow> List.map_filter f xs = []"
  by (induction xs) auto

lemma recording_loop_read_fails:
  assumes "list_all (\<lambda>x. clock x - start < duration \<and> delivered x \<noteq> None) pre"
    and "clock t - start < duration" and "cap_read t = Inr None"
  shows "\<exists>tr. recording_loop start duration (pre @ t # post) = Some (tr, None)
           \<and> map snd (video_buffer tr) = List.map_filter delivered pre
           \<and> length (read_times tr) = length pre + 1
           \<and> last (read_times tr) = clock t - start"
  using assms
proof (induction pre)
  case Nil
  then show ?case by (simp add: Let_def video_buffer_def read_times_def)
next
  case (Cons x pre)
  then obtain tr where
    tr: "recording_loop start duration (pre @ t # post) = Some (tr, None)"
      "map snd (video_buffer tr) = List.map_filter delivered pre"
      "length (read_times tr) = length pre + 1"
      "last (read_times tr) = clock t - start"
    by auto
  from Cons.prems(1) obtain f where
    x: "clock x - start < duration" "cap_read x = Inr (Some f)" "out_write x = None"
       "preview x = None" "delivered x = Some f"
    by (auto simp: delivered_def split: sum.splits option.splits if_splits)
  let ?e = "clock x - start"
  have "recording_loop start duration ((x # pre) @ t # post) =
          Some (CapRead ?e # OutWrite ?e f # Preview f # tr, None)"
    using x tr(1) by (simp add: Let_def)
  moreover have "read_times tr \<noteq> []" using tr(3) by auto
  ultimately show ?case
    using tr x by (simp add: video_buffer_def read_times_def)
qed

lemma merge_step_quiet:
  "audio_samples (fst (merge_step w m)) = [] \<and> read_times (fst (merge_step w m)) = []"
proof -
  let ?P = "\<lambda>ev. requested_of ev = None \<and> read_time_of ev = None"
  have a: "list_all ?P (fst (run_steps (merge_body w m)))"
    by (rule run_steps_calls) (simp add: merge_body_def)
  have b: "list_all ?P (fst (run_steps (cleanup w m)))"
    by (rule run_steps_calls) (simp add: cleanup_def)
  have "list_all ?P (fst (merge_step w m))"
    using a b by (auto simp: merge_step_def split: prod.splits option.splits exn.splits)
  then have "list_all (\<lambda>ev. requested_of ev = None) (fst (merge_step w m))"
    and "list_all (\<lambda>ev. read_time_of ev = None) (fst (merge_step w m))"
    by (simp_all add: list_all_iff)
  then show ?thesis
    by (simp add: audio_samples_def read_times_def map_filter_none)
qed

lemma capture_phase_trace:
  assumes "capture_phase duration w = Some (tr, r)"
  shows "\<exists>rest. tr = SdRec (py_int (duration * fs)) # rest \<and> audio_samples rest = []
           \<and> list_all (\<lambda>t. t < duration) (read_times rest)"
proof (cases "sd_rec w")
  case (Some e)
  with assms show ?thesis
    by (auto simp: capture_phase_def audio_samples_def read_times_def)
next
  case None
  note sd = this
  show ?thesis
  proof (cases "setup_video w")
    case (Some e)
    with sd assms show ?thesis
      by (auto simp: capture_phase_def audio_samples_def read_times_def)
  next
    case None
    with sd assms obtain tr2 r2 where
      loop: "recording_loop (start_time w) duration (ticks w) = Some (tr2, r2)"
      and tr: "tr = SdRec (py_int (duration * fs)) # SetupVideo # tr2
                 \<or> tr = SdRec (py_int (duration * fs)) # SetupVideo # tr2
                           @ fst (run_steps (stop_and_save w))"
      by (auto simp: capture_phase_def split: option.splits prod.splits)
    let ?P = "\<lambda>ev. requested_of ev = None \<and> read_time_of ev = None"
    have "list_all ?P (fst (run_steps (stop_and_save w)))"
      by (rule run_steps_calls) (simp add: stop_and_save_def)
    then have "list_all (\<lambda>ev. requested_of ev = None) (fst (run_steps (stop_and_save w)))"
      and "list_all (\<lambda>ev. read_time_of ev = None) (fst (run_steps (stop_and_save w)))"
      by (simp_all add: list_all_iff)
    then have q: "audio_samples (fst (run_steps (stop_and_save w))) = []"
      "read_times (fst (run_steps (stop_and_save w))) = []"
      by (simp_all add: audio_samples_def read_times_def map_filter_none)
    have a2: "audio_samples (SetupVideo # tr2) = []"
      using recording_loop_requests_nothing [OF loop] by (simp add: audio_samples_def)
    have r2: "list_all (\<lambda>t. t < duration) (read_times (SetupVideo # tr2))"
      using recording_loop_read_times [OF loop] by (simp add: read_times_def)
    from tr show ?thesis
    proof
      assume "tr = SdRec (py_int (duration * fs)) # SetupVideo # tr2"
      with a2 r2 show ?thesis by blast
    next
      let ?rest = "(SetupVideo # tr2) @ fst (run_steps (stop_and_save w))"
      assume "tr = SdRec (py_int (duration * fs)) # SetupVideo # tr2
                           @ fst (run_steps (stop_and_save w))"
      then have "tr = SdRec (py_int (duration * fs)) # ?rest" by simp
      moreover have "audio_samples ?rest = []"
        using a2 q(1) unfolding audio_samples_def map_filter_append by simp
      moreover have "list_all (\<lambda>t. t < duration) (read_times ?rest)"
        using r2 q(2) unfolding read_times_def map_filter_append by simp
      ultimately show ?thesis by blast
    qed
  qed
qed

lemma record_av_segment_trace:
  assumes "record_av_segment duration w m = Some (tr, r)"
  shows "\<exists>rest. tr = SdRec (py_int (duration * fs)) # rest \<and> audio_samples rest = []
           \<and> list_all (\<lambda>t. t < duration) (read_times rest)"
proof -
  from assms obtain tr1 r1 where
    cap: "capture_phase duration w = Some (tr1, r1)"
    and tr: "tr = tr1 \<or> tr = tr1 @ fst (merge_step w m)"
    by (auto simp: record_av_segment_def split: option.splits prod.splits)
  from capture_phase_trace [OF cap] obtain rest where
    rest: "tr1 = SdRec (py_int (duration * fs)) # rest" "audio_samples rest = []"
      "list_all (\<lambda>t. t < duration) (read_times rest)"
    by blast
  from tr show ?thesis
  proof
    assume "tr = tr1"
    with rest show ?thesis by blast
  next
    assume "tr = tr1 @ fst (merge_step w m)"
    then have "tr = SdRec (py_int (duration * fs)) # (rest @ fst (merge_step w m))"
      using rest(1) by simp
    moreover have "audio_samples (rest @ fst (merge_step w m)) = []"
      using rest(2) merge_step_quiet [of w m]
      unfolding audio_samples_def map_filter_append by simp
    moreover have "list_all (\<lambda>t. t < duration) (read_times (rest @ fst (merge_step w m)))"
      using rest(3) merge_step_quiet [of w m]
      unfolding read_times_def map_filter_append by simp
    ultimately show ?thesis by blast
  qed
qed

subsection \<open>Capture\<close>




text \<open>
  Claim C4, amended. When the calls outside the loop return, the iterations \<open>pre\<close> each
  deliver a frame at an elapsed time below the duration, and the next read, also below
  the duration, returns \<open>ret = False\<close>: the capture returns; the video file holds the
  frames of \<open>pre\<close>, in order, and is released; the failing read is the last read, whatever
  the camera would have done afterwards; nothing is reported as an error; and the audio is
  waited for and saved, with the \<open>int(duration * fs)\<close> samples asked of \<open>sd.rec\<close>.
\<close>

theorem read_failure_ends_capture_quietly:
  assumes "calls_return w"
    and "ticks w = pre @ t # post"
    and "list_all (\<lambda>x. clock x - start_time w < duration \<and> delivered x \<noteq> None) pre"
    and "clock t - start_time w < duration" and "cap_read t = Inr None"
  shows "\<exists>tr. capture_phase duration w = Some (tr, None)
           \<and> map snd (video_buffer tr) = List.map_filter delivered pre
           \<and> length (read_times tr) = length pre + 1
           \<and> last (read_times tr) = clock t - start_time w
           \<and> filter is_error_report tr = []
           \<and> audio_samples tr = [py_int (duration * fs)]
           \<and> OutRelease \<in> set tr \<and> SdWait \<in> set tr \<and> WavWrite (temp_audio w) \<in> set tr"
proof -
  from recording_loop_read_fails [OF assms(3-5), of post] assms(2) obtain tr2 where
    loop: "recording_loop (start_time w) duration (ticks w) = Some (tr2, None)"
    and buf: "map snd (video_buffer tr2) = List.map_filter delivered pre"
    and len: "length (read_times tr2) = length pre + 1"
    and lst: "last (read_times tr2) = clock t - start_time w"
    by auto
  let ?tr = "[SdRec (py_int (duration * fs)), SetupVideo] @ tr2 @
             [CapRelease, OutRelease, SdWait, WavWrite (temp_audio w), PlaceholderEmpty,
              StInfo ''Processing Media...'']"
  have ret: "capture_phase duration w = Some (?tr, None)"
    using capture_phase_ok [OF assms(1) loop] .
  have "read_times tr2 \<noteq> []" using len by auto
  then have rt: "read_times ?tr = read_times tr2"
    by (simp add: read_times_def map_filter_append)
  have vb: "video_buffer ?tr = video_buffer tr2"
    by (simp add: video_buffer_def map_filter_append)
  have er: "filter is_error_report ?tr = []"
    using recording_loop_reports_nothing [OF loop] by simp
  have au: "audio_samples ?tr = [py_int (duration * fs)]"
    using recording_loop_requests_nothing [OF loop]
    by (simp add: audio_samples_def map_filter_append)
  have mem: "OutRelease \<in> set ?tr \<and> SdWait \<in> set ?tr \<and> WavWrite (temp_audio w) \<in> set ?tr"
    by simp
  from ret buf len lst rt vb er au mem show ?thesis
    by (intro exI [of _ ?tr]) (simp only: simp_thms)
qed

theorem read_failure_ends_capture_quietly_witness:
  "\<exists>tr. capture_phase 60 w_read_fails = Some (tr, None)
           \<and> map snd (video_buffer tr) = [7]
           \<and> length (read_times tr) = 2
           \<and> last (read_times tr) = 2
           \<and> filter is_error_report tr = []
           \<and> audio_samples tr = [2646000]
           \<and> OutRelease \<in> set tr \<and> SdWait \<in> set tr \<and> WavWrite ''/tmp/a.wav'' \<in> set tr"
  using read_failure_ends_capture_quietly
    [of w_read_fails
        "[\<lparr>clock = 101, cap_read = Inr (Some 7), out_write = None, preview = None\<rparr>]"
        "\<lparr>clock = 102, cap_read = Inr None, out_write = None, preview = None\<rparr>"
        "[\<lparr>clock = 103, cap_read = Inr (Some 9), out_write = None, preview = None\<rparr>]"
        60]
  by (simp add: w_read_fails_def w_full_def calls_return_def delivered_def py_int_def fs_def
      numeral_2_eq_2)

text \<open>
  As first stated, with a \<open>DeviceReadError\<close> condition signalled, claim C4 fails: after a
  read that returns \<open>ret = False\<close> the script leaves the loop with \<open>break\<close> and goes on
  as after a full loop. With one frame delivered and the next read failing after two
  seconds, the capture returns normally and its trace holds no error or warning.
\<close>

theorem silent_read_failure_counterexample:
  "capture_phase 60 w_read_fails =
     Some ([SdRec 2646000, SetupVideo, CapRead 1, OutWrite 1 7, Preview 7, CapRead 2,
            CapRelease, OutRelease, SdWait, WavWrite ''/tmp/a.wav'', PlaceholderEmpty,
            StInfo ''Processing Media...''], None)
   \<and> filter is_error_report (fst (the (capture_phase 60 w_read_fails))) = []"
  by (simp add: capture_phase_def w_read_fails_def w_full_def py_int_def fs_def
      stop_and_save_def)

text \<open>
  Claim C8, amended. Whenever \<open>record_av_segment\<close> returns a path, whether the loop
  ended by the clock or by a failed read, it has called \<open>cap.release()\<close>,
  \<open>out.release()\<close> and \<open>sd.wait()\<close>, one after the other, and no \<open>cap.read()\<close> follows
  them.
\<close>

theorem returning_capture_releases_devices:
  assumes "record_av_segment duration w m = Some (tr, Inr file_path)"
  shows "\<exists>before after. tr = before @ CapRelease # OutRelease # SdWait # after
           \<and> read_times after = []"
proof -
  from assms obtain tr1 tr' where
    cap: "capture_phase duration w = Some (tr1, None)"
    and mrg: "merge_step w m = (tr', Inr file_path)" and tr: "tr = tr1 @ tr'"
    by (auto simp: record_av_segment_def split: option.splits prod.splits)
  from cap obtain tr2 where
    tr1: "tr1 = [SdRec (py_int (duration * fs)), SetupVideo] @ tr2 @
                [CapRelease, OutRelease, SdWait, WavWrite (temp_audio w), PlaceholderEmpty,
                 StInfo ''Processing Media...'']"
    by (rule capture_phase_returns)
  let ?before = "[SdRec (py_int (duration * fs)), SetupVideo] @ tr2"
  let ?after = "[WavWrite (temp_audio w), PlaceholderEmpty, StInfo ''Processing Media...''] @ tr'"
  have "tr = ?before @ CapRelease # OutRelease # SdWait # ?after"
    using tr tr1 by simp
  moreover have "read_times tr' = []"
    using merge_step_quiet [of w m] mrg by simp
  then have "read_times ?after = []"
    by (simp add: read_times_def map_filter_append)
  ultimately show ?thesis by blast
qed

theorem returning_capture_releases_devices_witness:
  "\<exists>before after.
      fst (the (record_av_segment 60 w_read_fails m_ok))
        = before @ CapRelease # OutRelease # SdWait # after
      \<and> read_times after = []"
  using returning_capture_releases_devices
    [of 60 w_read_fails m_ok "fst (the (record_av_segment 60 w_read_fails m_ok))"
        "''/tmp/out.mp4''"]
  by (simp add: record_av_segment_def capture_phase_def merge_step_def merge_body_def
      cleanup_def stop_and_save_def w_read_fails_def w_full_def m_ok_def py_int_def fs_def)

text \<open>
  As first stated, for every exit path, claim C8 fails when a call inside the loop
  raises: the script has no \<open>try\<close> around the loop, so the exception ends
  \<open>record_av_segment\<close> before \<open>cap.release()\<close> and \<open>sd.wait()\<close>. Here \<open>out.write\<close>
  raises on the first frame.
\<close>

theorem unreleased_camera_counterexample:
  "record_av_segment 60 w_write_raises m_ok =
     Some ([SdRec 2646000, SetupVideo, CapRead 1, OutWrite 1 7], Inl (Exception ''cv2.error''))
   \<and> CapRelease \<notin> set (fst (the (record_av_segment 60 w_write_raises m_ok)))
   \<and> SdWait \<notin> set (fst (the (record_av_segment 60 w_write_raises m_ok)))"
  by (simp add: record_av_segment_def capture_phase_def w_write_raises_def w_full_def
      py_int_def fs_def)

subsection \<open>Merge\<close>

text \<open>
  Claim C2, amended. When a call of the \<open>try\<close> block (opening the two clips, attaching
  the audio, encoding, closing the clips) raises an \<open>Exception\<close>, the merge step reports
  \<open>Merge Error:\<close> with its message through \<open>st.error\<close> and returns the path of the raw
  video file; and the merge step never ends with an \<open>Exception\<close>.
\<close>

theorem merge_step_catches_Exception:
  "(\<forall>msg. snd (run_steps (merge_body w m)) = Some (Exception msg) \<longrightarrow>
      merge_step w m =
        (fst (run_steps (merge_body w m)) @ [StError (''Merge Error: '' @ msg)],
         Inr (temp_vid w)))
   \<and> (\<forall>msg. snd (merge_step w m) \<noteq> Inl (Exception msg))"
  by (auto simp: merge_step_def split: prod.splits option.splits exn.splits)

theorem merge_step_catches_Exception_witness:
  "merge_step w_full m_corrupt_audio =
     ([VideoFileClip ''/tmp/v.mp4'', AudioFileClip ''/tmp/a.wav'',
       StError ''Merge Error: corrupt audio file''], Inr ''/tmp/v.mp4'')"
  using merge_step_catches_Exception [of w_full m_corrupt_audio]
  by (simp add: merge_body_def m_corrupt_audio_def m_ok_def w_full_def)

text \<open>
  As first stated, for every exception, claim C2 fails for one that is not an
  \<open>Exception\<close>: the handler of line 149 is \<open>except Exception\<close>, so a
  \<open>KeyboardInterrupt\<close> raised by \<open>write_videofile\<close> leaves the merge step uncaught.
\<close>

theorem merge_step_propagates_counterexample:
  "merge_step w_full m_interrupted =
     ([VideoFileClip ''/tmp/v.mp4'', AudioFileClip ''/tmp/a.wav'', SetAudio,
       WriteVideofile ''/tmp/out.mp4''], Inl (BaseException ''KeyboardInterrupt''))"
  by (simp add: merge_step_def merge_body_def m_interrupted_def m_ok_def w_full_def)

subsection \<open>Live input\<close>

text \<open>
  Claim C9. When Start Recording is pressed, the page announces \<open>Records for 2 MINUTES.\<close>
  and then calls \<open>record_av_segment\<close> with 60: the audio buffer asked of \<open>sd.rec\<close> has
  60 times 44100 samples, not 120 times 44100, and every \<open>cap.read()\<close> is made at an
  elapsed time below 60 seconds.
\<close>

theorem live_recording_lasts_60_seconds:
  assumes "live_input True w m s = Some (tr, r)"
  shows "take 3 tr = [StInfo ''Records for 2 MINUTES.'', Spinner ''Recording...'',
                      SdRec (60 * 44100)]
         \<and> audio_samples tr = [60 * 44100]
         \<and> audio_samples tr \<noteq> [120 * 44100]
         \<and> list_all (\<lambda>t. t < 60) (read_times tr)"
proof -
  from assms obtain tr0 r0 where
    rec: "record_av_segment 60 w m = Some (tr0, r0)"
    and tr: "tr = StInfo ''Records for 2 MINUTES.'' # Spinner ''Recording...'' # tr0
             \<or> (\<exists>p. tr = StInfo ''Records for 2 MINUTES.'' # Spinner ''Recording...'' # tr0
                    @ StSuccess ''Recording Saved!'' # show_video (s\<lparr>video_path := Some p\<rparr>))"
    by (auto simp: live_input_def Let_def split: option.splits prod.splits sum.splits)
  have n: "py_int (60 * fs) = 60 * 44100"
    by (simp add: py_int_def fs_def)
  from record_av_segment_trace [OF rec] n obtain rest where
    rest: "tr0 = SdRec (60 * 44100) # rest" "audio_samples rest = []"
      "list_all (\<lambda>t. t < 60) (read_times rest)"
    by auto
  have sv: "\<And>s'. audio_samples (StSuccess ''Recording Saved!'' # show_video s') = []
               \<and> read_times (StSuccess ''Recording Saved!'' # show_video s') = []"
    by (simp add: show_video_def audio_samples_def read_times_def split: option.splits)
  from tr show ?thesis
  proof
    assume "tr = StInfo ''Records for 2 MINUTES.'' # Spinner ''Recording...'' # tr0"
    with rest show ?thesis
      by (simp add: audio_samples_def read_times_def)
  next
    assume "\<exists>p. tr = StInfo ''Records for 2 MINUTES.'' # Spinner ''Recording...'' # tr0
                    @ StSuccess ''Recording Saved!'' # show_video (s\<lparr>video_path := Some p\<rparr>)"
    then obtain p where
      "tr = StInfo ''Records for 2 MINUTES.'' # Spinner ''Recording...'' # tr0
                    @ StSuccess ''Recording Saved!'' # show_video (s\<lparr>video_path := Some p\<rparr>)"
      by blast
    with rest sv [of "s\<lparr>video_path := Some p\<rparr>"] show ?thesis
      by (simp add: audio_samples_def read_times_def map_filter_append)
  qed
qed

theorem live_recording_lasts_60_seconds_witness:
  "take 3 (fst (the (live_input True w_full m_ok initial_session))) =
      [StInfo ''Records for 2 MINUTES.'', Spinner ''Recording...'', SdRec 2646000]
   \<and> audio_samples (fst (the (live_input True w_full m_ok initial_session))) = [2646000]
   \<and> list_all (\<lambda>t. t < 60) (read_times (fst (the (live_input True w_full m_ok initial_session))))"
  using live_recording_lasts_60_seconds
    [of w_full m_ok initial_session "fst (the (live_input True w_full m_ok initial_session))"
        "snd (the (live_input True w_full m_ok initial_session))"]
  by (simp add: live_input_def record_av_segment_def capture_phase_def merge_step_def
      merge_body_def cleanup_def stop_and_save_def w_full_def m_ok_def py_int_def fs_def
      initial_session_def show_video_def)

end
